theory Spec2Isabelle
  imports Main
begin

section \<open>Identifiers and status vocabulary (core/models)\<close>

text \<open>
  The identifier types of the Go code are distinct integer types; time.Time values are
  modelled as instants on an integer time line, and a nil *time.Time as \<open>None\<close>.
\<close>

type_synonym FlowRunID = int
type_synonym SessionID = int
type_synonym FlowID = int
type_synonym ContactID = int
type_synonym OrgID = int
type_synonym StartID = int
type_synonym ConnectionID = int
type_synonym ChannelID = int
type_synonym Time = int
type_synonym UUID = string

text \<open>\<open>type RunStatus string\<close> with its six constants.\<close>

type_synonym RunStatus = string

definition RunStatusActive :: RunStatus where "RunStatusActive = ''A''"
definition RunStatusWaiting :: RunStatus where "RunStatusWaiting = ''W''"
definition RunStatusCompleted :: RunStatus where "RunStatusCompleted = ''C''"
definition RunStatusExpired :: RunStatus where "RunStatusExpired = ''X''"
definition RunStatusInterrupted :: RunStatus where "RunStatusInterrupted = ''I''"
definition RunStatusFailed :: RunStatus where "RunStatusFailed = ''F''"

text \<open>
  The engine's run status (goflow's \<open>flows.RunStatus\<close>, a string type declared outside
  this repository). Its five constants are the constructors the code names; the last
  constructor stands for any other value of the string type.
\<close>

datatype flows_RunStatus =
    flows_RunStatusActive
  | flows_RunStatusWaiting
  | flows_RunStatusCompleted
  | flows_RunStatusExpired
  | flows_RunStatusFailed
  | flows_RunStatusOther string

text \<open>
  A Go map literal is an association list; indexing a map with a missing key yields the
  zero value of the value type, which for both maps below is the empty string.
\<close>

definition go_index :: "('k \<times> string) list \<Rightarrow> 'k \<Rightarrow> string" where
  "go_index m k = (case map_of m k of None \<Rightarrow> [] | Some v \<Rightarrow> v)"

definition runStatusMap :: "(flows_RunStatus \<times> RunStatus) list" where
  "runStatusMap =
     [(flows_RunStatusActive, RunStatusActive),
      (flows_RunStatusWaiting, RunStatusWaiting),
      (flows_RunStatusCompleted, RunStatusCompleted),
      (flows_RunStatusExpired, RunStatusExpired),
      (flows_RunStatusFailed, RunStatusFailed)]"

text \<open>
  \<open>ExitType = null.String\<close>: a string whose empty value \<open>[]\<close> is written to the
  database as NULL.
\<close>

type_synonym null_String = string
type_synonym ExitType = null_String

definition ExitInterrupted :: ExitType where "ExitInterrupted = ''I''"
definition ExitCompleted :: ExitType where "ExitCompleted = ''C''"
definition ExitExpired :: ExitType where "ExitExpired = ''E''"
definition ExitFailed :: ExitType where "ExitFailed = ''F''"

definition runStatusToExitType :: "(RunStatus \<times> ExitType) list" where
  "runStatusToExitType =
     [(RunStatusInterrupted, ExitInterrupted),
      (RunStatusCompleted, ExitCompleted),
      (RunStatusExpired, ExitExpired),
      (RunStatusFailed, ExitFailed)]"

section \<open>Errors\<close>

text \<open>
  \<open>sql.ErrNoRows\<close>, any other error of the database layer or of asset loading, and
  \<open>errors.Wrapf\<close> with its format string (the arguments are not rendered). The last
  constructor is the error kind of an update on a terminal session.
\<close>

datatype error =
    ErrNoRows
  | ErrOther string
  | Wrapf error string
  | IllegalTransition

section \<open>The engine run and the run record\<close>

text \<open>A step of the engine's path (\<open>flows.Step\<close>) and the serialised \<open>Step\<close> struct.\<close>

record flows_Step =
  fs_UUID :: UUID
  fs_NodeUUID :: UUID
  fs_ArrivedOn :: Time
  fs_ExitUUID :: UUID

record Step =
  step_UUID :: UUID
  step_NodeUUID :: UUID
  step_ArrivedOn :: Time
  step_ExitUUID :: UUID

text \<open>An engine event, of which newRun reads the type.\<close>

record flows_Event =
  ev_Type :: string
  ev_CreatedOn :: Time

text \<open>
  Modelled from the spec: the type name of the inbound-message event
  (\<open>events.TypeMsgReceived\<close>, declared in goflow, outside this repository).
\<close>

definition events_TypeMsgReceived :: string where
  "events_TypeMsgReceived = ''msg_received''"

text \<open>
  The engine run as newRun reads it through the \<open>flows.Run\<close> interface. The parent frame
  is held by its UUID, the only thing newRun reads from it; \<open>None\<close> is a nil parent.
\<close>

type_synonym flows_Results = "(string \<times> string) list"

record flows_Run =
  fr_UUID :: UUID
  fr_Status :: flows_RunStatus
  fr_CreatedOn :: Time
  fr_ExitedOn :: "Time option"
  fr_ExpiresOn :: "Time option"
  fr_ModifiedOn :: Time
  fr_ContactID :: ContactID
  fr_FlowUUID :: UUID
  fr_Path :: "flows_Step list"
  fr_Results :: flows_Results
  fr_Events :: "flows_Event list"
  fr_Parent :: "UUID option"

text \<open>The inner struct \<open>r\<close> of \<open>FlowRun\<close>, and the reference to the engine run.\<close>

record FlowRun =
  r_ID :: FlowRunID
  r_UUID :: UUID
  r_Status :: RunStatus
  r_CreatedOn :: Time
  r_ModifiedOn :: Time
  r_ExitedOn :: "Time option"
  r_ExpiresOn :: "Time option"
  r_Responded :: bool
  r_Results :: string
  r_Path :: string
  r_CurrentNodeUUID :: null_String
  r_ContactID :: ContactID
  r_FlowID :: FlowID
  r_OrgID :: OrgID
  r_ParentUUID :: "UUID option"
  r_SessionID :: SessionID
  r_StartID :: StartID
  r_ConnectionID :: "ConnectionID option"
  r_IsActive :: bool
  r_ExitType :: ExitType
  r_run :: "flows_Run option"

definition NilStartID :: StartID where "NilStartID = 0"

text \<open>\<open>&FlowRun{}\<close>: every field at its zero value.\<close>

definition FlowRun_zero :: FlowRun where
  "FlowRun_zero =
     \<lparr> r_ID = 0, r_UUID = [], r_Status = [], r_CreatedOn = 0, r_ModifiedOn = 0,
       r_ExitedOn = None, r_ExpiresOn = None, r_Responded = False, r_Results = [],
       r_Path = [], r_CurrentNodeUUID = [], r_ContactID = 0, r_FlowID = 0, r_OrgID = 0,
       r_ParentUUID = None, r_SessionID = 0, r_StartID = 0, r_ConnectionID = None,
       r_IsActive = False, r_ExitType = [], r_run = None \<rparr>"

text \<open>
  What newRun takes from its surroundings: the organisation id of the assets, the id of
  the owning session, the flow lookup \<open>FlowIDForUUID\<close> (which can fail) and the JSON
  marshallers of \<open>jsonx\<close>, all declared outside the file.
\<close>

record newRun_env =
  env_OrgID :: OrgID
  env_SessionID :: SessionID
  env_FlowIDForUUID :: "UUID \<Rightarrow> error + FlowID"
  env_MarshalPath :: "Step list \<Rightarrow> string"
  env_MarshalResults :: "flows_Results \<Rightarrow> string"

text \<open>The first loop of newRun: one serialised step for each step of the engine path.\<close>

definition copy_step :: "flows_Step \<Rightarrow> Step" where
  "copy_step p =
     \<lparr> step_UUID = fs_UUID p, step_NodeUUID = fs_NodeUUID p,
       step_ArrivedOn = fs_ArrivedOn p, step_ExitUUID = fs_ExitUUID p \<rparr>"

fun build_path :: "flows_Step list \<Rightarrow> Step list" where
  "build_path [] = []"
| "build_path (p # ps) = copy_step p # build_path ps"

text \<open>
  The loop over the events: the first event of the inbound-message type sets the flag
  and leaves the loop.
\<close>

fun mark_responded :: "flows_Event list \<Rightarrow> bool \<Rightarrow> bool" where
  "mark_responded [] responded = responded"
| "mark_responded (e # es) responded =
     (if ev_Type e = events_TypeMsgReceived then True else mark_responded es responded)"

definition newRun :: "newRun_env \<Rightarrow> flows_Run \<Rightarrow> error + FlowRun" where
  "newRun env fr =
     (let path = build_path (fr_Path fr) in
      case env_FlowIDForUUID env (fr_FlowUUID fr) of
        Inl err \<Rightarrow> Inl (Wrapf err ''unable to load flow with uuid: %s'')
      | Inr flowID \<Rightarrow>
          let r0 = FlowRun_zero
                \<lparr> r_UUID := fr_UUID fr,
                  r_Status := go_index runStatusMap (fr_Status fr),
                  r_CreatedOn := fr_CreatedOn fr,
                  r_ExitedOn := fr_ExitedOn fr,
                  r_ExpiresOn := fr_ExpiresOn fr,
                  r_ModifiedOn := fr_ModifiedOn fr,
                  r_ContactID := fr_ContactID fr,
                  r_FlowID := flowID,
                  r_SessionID := env_SessionID env,
                  r_StartID := NilStartID,
                  r_OrgID := env_OrgID env,
                  r_Path := env_MarshalPath env path,
                  r_Results := env_MarshalResults env (fr_Results fr) \<rparr>;
              r1 = (if length path > 0
                    then r0 \<lparr> r_CurrentNodeUUID := step_NodeUUID (path ! (length path - 1)) \<rparr>
                    else r0);
              r2 = r1 \<lparr> r_run := Some fr \<rparr>;
              r3 = (if fr_Status fr \<noteq> flows_RunStatusActive \<and> fr_Status fr \<noteq> flows_RunStatusWaiting
                    then r2 \<lparr> r_ExitType := go_index runStatusToExitType (r_Status r2),
                              r_IsActive := False \<rparr>
                    else r2 \<lparr> r_IsActive := True \<rparr>);
              r4 = r3 \<lparr> r_Responded := mark_responded (fr_Events fr) (r_Responded r3) \<rparr>;
              r5 = (case fr_Parent fr of
                      None \<Rightarrow> r4
                    | Some uuid \<Rightarrow> r4 \<lparr> r_ParentUUID := Some uuid \<rparr>)
          in Inr r5)"

section \<open>The relational store\<close>

text \<open>
  The two tables the operations write, with the columns of the persistence schema. A
  table is a map from the primary key \<open>id\<close> to the row; a nullable column is an option.
\<close>

record flowrun_row =
  run_uuid :: UUID
  run_status :: string
  run_is_active :: bool
  run_exit_type :: "string option"
  run_created_on :: Time
  run_modified_on :: Time
  run_exited_on :: "Time option"
  run_expires_on :: "Time option"
  run_responded :: bool
  run_results :: string
  run_path :: string
  run_current_node_uuid :: "string option"
  run_contact_id :: ContactID
  run_flow_id :: FlowID
  run_org_id :: OrgID
  run_parent_uuid :: "UUID option"
  run_session_id :: SessionID
  run_start_id :: "StartID option"
  run_connection_id :: "ConnectionID option"

record flowsession_row =
  ses_uuid :: UUID
  ses_session_type :: string
  ses_status :: string
  ses_contact_id :: ContactID
  ses_current_flow_id :: "FlowID option"
  ses_connection_id :: "ConnectionID option"
  ses_responded :: bool
  ses_output :: string
  ses_created_on :: Time
  ses_ended_on :: "Time option"
  ses_wait_started_on :: "Time option"
  ses_wait_expires_on :: "Time option"
  ses_wait_resume_on_expire :: bool
  ses_timeout_on :: "Time option"
  ses_org_id :: OrgID

text \<open>
  The third table gives, for a connection id, the channel the connection is on; the
  interruption by channels reads it.
\<close>

record DB =
  flows_flowrun :: "FlowRunID \<rightharpoonup> flowrun_row"
  flows_flowsession :: "SessionID \<rightharpoonup> flowsession_row"
  channels_channelconnection :: "ConnectionID \<rightharpoonup> ChannelID"

text \<open>
  What the database driver answers to each call, apart from what the data decides:
  \<open>None\<close> when the call goes through, the driver's error otherwise. Statements are
  named by the label the code passes to \<open>Exec\<close>. The driver that never fails is
  \<open>reliable\<close>.
\<close>

record driver =
  drv_begin :: "error option"
  drv_exec :: "string \<Rightarrow> error option"
  drv_commit :: "error option"
  drv_get :: "error option"

definition reliable :: driver where
  "reliable = \<lparr> drv_begin = None, drv_exec = (\<lambda>_. None), drv_commit = None, drv_get = None \<rparr>"

text \<open>
  A transaction works on its own copy of the tables: \<open>Commit\<close> makes the copy the
  database, \<open>Rollback\<close> drops it.
\<close>

type_synonym Tx = DB

definition BeginTxx :: "driver \<Rightarrow> DB \<Rightarrow> error + Tx" where
  "BeginTxx d db = (case drv_begin d of Some err \<Rightarrow> Inl err | None \<Rightarrow> Inr db)"

definition Exec :: "driver \<Rightarrow> string \<Rightarrow> Tx \<Rightarrow> (Tx \<Rightarrow> Tx) \<Rightarrow> error + Tx" where
  "Exec d label tx stmt = (case drv_exec d label of Some err \<Rightarrow> Inl err | None \<Rightarrow> Inr (stmt tx))"

definition Commit :: "driver \<Rightarrow> Tx \<Rightarrow> error + DB" where
  "Commit d tx = (case drv_commit d of Some err \<Rightarrow> Inl err | None \<Rightarrow> Inr tx)"

definition Rollback :: "DB \<Rightarrow> Tx \<Rightarrow> DB" where
  "Rollback db tx = db"

text \<open>\<open>UPDATE t SET ... WHERE id = ANY($1)\<close>: the rows whose key is in the array are rewritten.\<close>

definition update_where_id :: "int list \<Rightarrow> ('row \<Rightarrow> 'row) \<Rightarrow> (int \<rightharpoonup> 'row) \<Rightarrow> (int \<rightharpoonup> 'row)" where
  "update_where_id ids f tbl = (\<lambda>k. if k \<in> set ids then map_option f (tbl k) else tbl k)"

section \<open>Expiration (core/models)\<close>

text \<open>
  The two statements, with \<open>NOW()\<close> the time of the transaction, passed as \<open>now\<close>.
\<close>

definition expireSessionsSQL :: "Time \<Rightarrow> SessionID list \<Rightarrow> Tx \<Rightarrow> Tx" where
  "expireSessionsSQL now sessionIDs tx =
     tx \<lparr> flows_flowsession :=
            update_where_id sessionIDs
              (\<lambda>s. s \<lparr> ses_status := ''X'',
                       ses_ended_on := Some now,
                       ses_wait_started_on := None,
                       ses_wait_expires_on := None,
                       ses_timeout_on := None,
                       ses_current_flow_id := None \<rparr>)
              (flows_flowsession tx) \<rparr>"

definition expireRunsSQL :: "Time \<Rightarrow> FlowRunID list \<Rightarrow> Tx \<Rightarrow> Tx" where
  "expireRunsSQL now runIDs tx =
     tx \<lparr> flows_flowrun :=
            update_where_id runIDs
              (\<lambda>r. r \<lparr> run_is_active := False,
                       run_exited_on := Some now,
                       run_exit_type := Some ''E'',
                       run_status := ''E'',
                       run_modified_on := now \<rparr>)
              (flows_flowrun tx) \<rparr>"

text \<open>
  ExpireRunsAndSessions returns its error (\<open>None\<close> for nil) and leaves the database in
  the second component.
\<close>

definition ExpireRunsAndSessions ::
    "driver \<Rightarrow> DB \<Rightarrow> Time \<Rightarrow> FlowRunID list \<Rightarrow> SessionID list \<Rightarrow> error option \<times> DB" where
  "ExpireRunsAndSessions d db now runIDs sessionIDs =
     (if length runIDs = 0 then (None, db)
      else
        case BeginTxx d db of
          Inl err \<Rightarrow> (Some (Wrapf err ''error starting transaction to expire sessions''), db)
        | Inr tx \<Rightarrow>
            (case Exec d ''expiring runs'' tx (expireRunsSQL now runIDs) of
               Inl err \<Rightarrow> (Some (Wrapf err ''error expiring runs''), Rollback db tx)
             | Inr tx1 \<Rightarrow>
                 (case (if length sessionIDs > 0
                        then Exec d ''expiring sessions'' tx1 (expireSessionsSQL now sessionIDs)
                        else Inr tx1) of
                    Inl err \<Rightarrow> (Some (Wrapf err ''error expiring sessions''), Rollback db tx1)
                  | Inr tx2 \<Rightarrow>
                      (case Commit d tx2 of
                         Inl err \<Rightarrow>
                           (Some (Wrapf err ''error committing expiration of runs and sessions''), db)
                       | Inr db' \<Rightarrow> (None, db')))))"

text \<open>
  \<open>db.Get\<close> of the expiration query: \<open>sql.ErrNoRows\<close> when no row has the id and status
  \<open>W\<close>; a NULL \<open>expires_on\<close> does not scan into a \<open>time.Time\<close> and is an error of the scan.
\<close>

definition Get_expires_on :: "driver \<Rightarrow> DB \<Rightarrow> FlowRunID \<Rightarrow> error + Time" where
  "Get_expires_on d db runID =
     (case drv_get d of
        Some err \<Rightarrow> Inl err
      | None \<Rightarrow>
          (case flows_flowrun db runID of
             None \<Rightarrow> Inl ErrNoRows
           | Some r \<Rightarrow>
               if run_status r = ''W''
               then (case run_expires_on r of
                       None \<Rightarrow> Inl (ErrOther ''sql: Scan error on column index 0'')
                     | Some t \<Rightarrow> Inr t)
               else Inl ErrNoRows))"

text \<open>
  RunExpiration: \<open>Inr None\<close> is the pair (nil, nil), \<open>Inr (Some t)\<close> a non-nil expiration,
  \<open>Inl\<close> the wrapped error.
\<close>

definition RunExpiration :: "driver \<Rightarrow> DB \<Rightarrow> FlowRunID \<Rightarrow> error + Time option" where
  "RunExpiration d db runID =
     (case Get_expires_on d db runID of
        Inl err \<Rightarrow>
          if err = ErrNoRows then Inr None
          else Inl (Wrapf err ''unable to select expiration for run: %d'')
      | Inr expiration \<Rightarrow> Inr (Some expiration))"

section \<open>Session and flow-type vocabulary\<close>

text \<open>
  Modelled from the spec: the session status and flow type constants
  (\<open>SessionStatusWaiting\<close>, \<open>FlowTypeMessaging\<close> and the others), which the tests name and
  whose declarations are not among the sources. The characters are those of the
  persistence schema.
\<close>

type_synonym SessionStatus = string
type_synonym FlowType = string

definition SessionStatusWaiting :: SessionStatus where "SessionStatusWaiting = ''W''"
definition SessionStatusCompleted :: SessionStatus where "SessionStatusCompleted = ''C''"
definition SessionStatusExpired :: SessionStatus where "SessionStatusExpired = ''X''"
definition SessionStatusInterrupted :: SessionStatus where "SessionStatusInterrupted = ''I''"
definition SessionStatusFailed :: SessionStatus where "SessionStatusFailed = ''F''"

definition FlowTypeMessaging :: FlowType where "FlowTypeMessaging = ''M''"
definition FlowTypeVoice :: FlowType where "FlowTypeVoice = ''V''"
definition FlowTypeBackground :: FlowType where "FlowTypeBackground = ''B''"

section \<open>Interruption operations\<close>

text \<open>
  Modelled from the spec: the four interruption operations (\<open>InterruptSessionsForContacts\<close>,
  \<open>InterruptSessionsOfTypeForContacts\<close>, \<open>InterruptSessionsForChannels\<close>,
  \<open>InterruptSessionsForFlows\<close>). The tests call them; their code is not among the sources.
  Section 4.G gives them: a no-op on empty input; one statement moves the matching
  sessions of status Waiting to Interrupted, sets \<open>ended_on\<close> and clears the wait fields
  and the current flow; a second statement moves the runs of the matched sessions that
  are Active or Waiting to Interrupted, with \<open>exited_on\<close>, \<open>is_active\<close> and \<open>exit_type\<close>.
  A database error surfaces as it is and nothing of the call becomes visible.
\<close>

definition matched_session :: "(flowsession_row \<Rightarrow> bool) \<Rightarrow> DB \<Rightarrow> SessionID \<Rightarrow> bool" where
  "matched_session sel db sid =
     (case flows_flowsession db sid of
        None \<Rightarrow> False
      | Some s \<Rightarrow> ses_status s = SessionStatusWaiting \<and> sel s)"

definition interruptSessionsSQL :: "Time \<Rightarrow> (SessionID \<Rightarrow> bool) \<Rightarrow> Tx \<Rightarrow> Tx" where
  "interruptSessionsSQL now matched tx =
     tx \<lparr> flows_flowsession :=
            (\<lambda>k. if matched k
                 then map_option
                        (\<lambda>s. s \<lparr> ses_status := SessionStatusInterrupted,
                                 ses_ended_on := Some now,
                                 ses_wait_started_on := None,
                                 ses_wait_expires_on := None,
                                 ses_timeout_on := None,
                                 ses_current_flow_id := None \<rparr>)
                        (flows_flowsession tx k)
                 else flows_flowsession tx k) \<rparr>"

definition interruptRunsSQL :: "Time \<Rightarrow> (SessionID \<Rightarrow> bool) \<Rightarrow> Tx \<Rightarrow> Tx" where
  "interruptRunsSQL now matched tx =
     tx \<lparr> flows_flowrun :=
            (\<lambda>k. map_option
                   (\<lambda>r. if matched (run_session_id r)
                            \<and> (run_status r = RunStatusActive \<or> run_status r = RunStatusWaiting)
                        then r \<lparr> run_status := RunStatusInterrupted,
                                 run_exited_on := Some now,
                                 run_is_active := False,
                                 run_exit_type := Some ExitInterrupted \<rparr>
                        else r)
                   (flows_flowrun tx k)) \<rparr>"

definition interruptSessions ::
    "driver \<Rightarrow> DB \<Rightarrow> Time \<Rightarrow> (flowsession_row \<Rightarrow> bool) \<Rightarrow> error option \<times> DB" where
  "interruptSessions d db now sel =
     (let matched = matched_session sel db in
      case Exec d ''interrupting sessions'' db (interruptSessionsSQL now matched) of
        Inl err \<Rightarrow> (Some err, db)
      | Inr tx1 \<Rightarrow>
          (case Exec d ''interrupting runs'' tx1 (interruptRunsSQL now matched) of
             Inl err \<Rightarrow> (Some err, db)
           | Inr tx2 \<Rightarrow> (None, tx2)))"

definition InterruptSessionsForContacts ::
    "driver \<Rightarrow> DB \<Rightarrow> Time \<Rightarrow> ContactID list \<Rightarrow> error option \<times> DB" where
  "InterruptSessionsForContacts d db now contactIDs =
     (if length contactIDs = 0 then (None, db)
      else interruptSessions d db now (\<lambda>s. ses_contact_id s \<in> set contactIDs))"

definition InterruptSessionsOfTypeForContacts ::
    "driver \<Rightarrow> DB \<Rightarrow> Time \<Rightarrow> ContactID list \<Rightarrow> FlowType \<Rightarrow> error option \<times> DB" where
  "InterruptSessionsOfTypeForContacts d db now contactIDs sessionType =
     (if length contactIDs = 0 then (None, db)
      else interruptSessions d db now
             (\<lambda>s. ses_contact_id s \<in> set contactIDs \<and> ses_session_type s = sessionType))"

definition on_channels :: "DB \<Rightarrow> ChannelID list \<Rightarrow> flowsession_row \<Rightarrow> bool" where
  "on_channels db channelIDs s =
     (case ses_connection_id s of
        None \<Rightarrow> False
      | Some c \<Rightarrow>
          (case channels_channelconnection db c of
             None \<Rightarrow> False
           | Some ch \<Rightarrow> ch \<in> set channelIDs))"

definition InterruptSessionsForChannels ::
    "driver \<Rightarrow> DB \<Rightarrow> Time \<Rightarrow> ChannelID list \<Rightarrow> error option \<times> DB" where
  "InterruptSessionsForChannels d db now channelIDs =
     (if length channelIDs = 0 then (None, db)
      else interruptSessions d db now (on_channels db channelIDs))"

definition in_flows :: "FlowID list \<Rightarrow> flowsession_row \<Rightarrow> bool" where
  "in_flows flowIDs s =
     (case ses_current_flow_id s of None \<Rightarrow> False | Some f \<Rightarrow> f \<in> set flowIDs)"

definition InterruptSessionsForFlows ::
    "driver \<Rightarrow> DB \<Rightarrow> Time \<Rightarrow> FlowID list \<Rightarrow> error option \<times> DB" where
  "InterruptSessionsForFlows d db now flowIDs =
     (if length flowIDs = 0 then (None, db)
      else interruptSessions d db now (in_flows flowIDs))"

section \<open>The update path\<close>

text \<open>
  Modelled from the spec: \<open>Session.Update\<close> and the types it works on. The tests call it;
  its code is not among the sources. Section 4.F gives it: the call is rejected with
  IllegalTransition on a session whose status is terminal; otherwise status, current
  flow, wait fields, timeout, wait-resume-on-expire, ended-on and output are recomputed
  from the engine session after the sprint, the events of the sprint are applied in
  order, and the pre-commit hook runs last, its error aborting the call. Of the event
  handlers, the one this model carries is the handler of the inbound-message event,
  which marks the session as responded (sections 4.E and 8, scenario 1). The model is
  of the in-memory session the call leaves; the row writes store the same values.
\<close>

record Session =
  sn_id :: SessionID
  sn_row :: flowsession_row

datatype flows_SessionStatus =
    flows_SessionStatusWaiting
  | flows_SessionStatusCompleted
  | flows_SessionStatusFailed

record flows_Session =
  fse_Status :: flows_SessionStatus
  fse_CurrentFlowID :: "FlowID option"
  fse_WaitStartedOn :: "Time option"
  fse_WaitExpiresOn :: "Time option"
  fse_Timeout :: "Time option"
  fse_WaitResumeOnExpire :: bool
  fse_Output :: string

record flows_Sprint =
  sp_Events :: "flows_Event list"

type_synonym PreCommitHook = "Session list \<Rightarrow> error option"

definition session_terminal :: "SessionStatus \<Rightarrow> bool" where
  "session_terminal st =
     (st \<in> {SessionStatusCompleted, SessionStatusExpired, SessionStatusInterrupted,
            SessionStatusFailed})"

fun sessionStatusOf :: "flows_SessionStatus \<Rightarrow> SessionStatus" where
  "sessionStatusOf flows_SessionStatusWaiting = SessionStatusWaiting"
| "sessionStatusOf flows_SessionStatusCompleted = SessionStatusCompleted"
| "sessionStatusOf flows_SessionStatusFailed = SessionStatusFailed"

definition recompute :: "Time \<Rightarrow> flows_Session \<Rightarrow> flowsession_row \<Rightarrow> flowsession_row" where
  "recompute now fs row =
     (if fse_Status fs = flows_SessionStatusWaiting
      then row \<lparr> ses_status := sessionStatusOf (fse_Status fs),
                 ses_current_flow_id := fse_CurrentFlowID fs,
                 ses_wait_started_on := fse_WaitStartedOn fs,
                 ses_wait_expires_on := fse_WaitExpiresOn fs,
                 ses_timeout_on := fse_Timeout fs,
                 ses_wait_resume_on_expire := fse_WaitResumeOnExpire fs,
                 ses_ended_on := None,
                 ses_output := fse_Output fs \<rparr>
      else row \<lparr> ses_status := sessionStatusOf (fse_Status fs),
                 ses_current_flow_id := None,
                 ses_wait_started_on := None,
                 ses_wait_expires_on := None,
                 ses_timeout_on := None,
                 ses_wait_resume_on_expire := False,
                 ses_ended_on := Some now,
                 ses_output := fse_Output fs \<rparr>)"

definition apply_event :: "flows_Event \<Rightarrow> flowsession_row \<Rightarrow> flowsession_row" where
  "apply_event e row =
     (if ev_Type e = events_TypeMsgReceived then row \<lparr> ses_responded := True \<rparr> else row)"

fun apply_events :: "flows_Event list \<Rightarrow> flowsession_row \<Rightarrow> flowsession_row" where
  "apply_events [] row = row"
| "apply_events (e # es) row = apply_events es (apply_event e row)"

definition Session_Update ::
    "PreCommitHook \<Rightarrow> Time \<Rightarrow> Session \<Rightarrow> flows_Session \<Rightarrow> flows_Sprint \<Rightarrow> error + Session" where
  "Session_Update hook now s fs sprint =
     (if session_terminal (ses_status (sn_row s)) then Inl IllegalTransition
      else
        let s1 = s \<lparr> sn_row := recompute now fs (sn_row s) \<rparr>;
            s2 = s1 \<lparr> sn_row := apply_events (sp_Events sprint) (sn_row s1) \<rparr>
        in case hook [s2] of
             Some err \<Rightarrow> Inl err
           | None \<Rightarrow> Inr s2)"

text \<open>
  A caller that applies sprints to a session one after another; a call that returns an
  error leaves the caller with the session it had.
\<close>

fun apply_sprints ::
    "PreCommitHook \<Rightarrow> Session \<Rightarrow> (Time \<times> flows_Session \<times> flows_Sprint) list \<Rightarrow> Session" where
  "apply_sprints hook s [] = s"
| "apply_sprints hook s ((now, fs, sprint) # rest) =
     (case Session_Update hook now s fs sprint of
        Inl err \<Rightarrow> apply_sprints hook s rest
      | Inr s' \<Rightarrow> apply_sprints hook s' rest)"

section \<open>Reference definitions and example data\<close>

text \<open>
  The exit type that section 4.A of the spec gives for a persisted run status, in the
  spec's words: I to I, C to C, X to E, F to F, and null otherwise.
\<close>

definition spec_exit_type :: "RunStatus \<Rightarrow> ExitType" where
  "spec_exit_type st =
     (if st = RunStatusInterrupted then ExitInterrupted
      else if st = RunStatusCompleted then ExitCompleted
      else if st = RunStatusExpired then ExitExpired
      else if st = RunStatusFailed then ExitFailed
      else [])"

text \<open>A run with the given id exists and has status Waiting.\<close>

definition waiting_run :: "DB \<Rightarrow> FlowRunID \<Rightarrow> bool" where
  "waiting_run db runID =
     (case flows_flowrun db runID of None \<Rightarrow> False | Some r \<Rightarrow> run_status r = RunStatusWaiting)"

text \<open>
  An engine run with two steps, an inbound message among its events and a parent frame,
  and the surroundings of newRun with a flow lookup that answers.
\<close>

definition ex_env :: newRun_env where
  "ex_env =
     \<lparr> env_OrgID = 1, env_SessionID = 10, env_FlowIDForUUID = (\<lambda>u. Inr 7),
       env_MarshalPath = (\<lambda>p. concat (map step_NodeUUID p)),
       env_MarshalResults = (\<lambda>r. concat (map fst r)) \<rparr>"

definition ex_run :: "flows_RunStatus \<Rightarrow> flows_Run" where
  "ex_run st =
     \<lparr> fr_UUID = ''r1'', fr_Status = st, fr_CreatedOn = 100,
       fr_ExitedOn = (if st = flows_RunStatusActive \<or> st = flows_RunStatusWaiting
                      then None else Some 200),
       fr_ExpiresOn = None, fr_ModifiedOn = 200, fr_ContactID = 3, fr_FlowUUID = ''f1'',
       fr_Path =
         [\<lparr> fs_UUID = ''s1'', fs_NodeUUID = ''n1'', fs_ArrivedOn = 100, fs_ExitUUID = ''e1'' \<rparr>,
          \<lparr> fs_UUID = ''s2'', fs_NodeUUID = ''n2'', fs_ArrivedOn = 150, fs_ExitUUID = [] \<rparr>],
       fr_Results = [],
       fr_Events =
         [\<lparr> ev_Type = ''msg_created'', ev_CreatedOn = 100 \<rparr>,
          \<lparr> ev_Type = ''msg_received'', ev_CreatedOn = 150 \<rparr>],
       fr_Parent = Some ''r0'' \<rparr>"

text \<open>
  A database in the shape of the interruption tests: for one contact a Completed session
  1 with its run 11 and a Waiting session 2 with its run 12, both on connection 21 of
  channel 31.
\<close>

definition ex_session :: "string \<Rightarrow> ContactID \<Rightarrow> flowsession_row" where
  "ex_session st contact =
     \<lparr> ses_uuid = ''s'', ses_session_type = ''M'', ses_status = st, ses_contact_id = contact,
       ses_current_flow_id = (if st = ''W'' then Some 7 else None),
       ses_connection_id = Some 21, ses_responded = False, ses_output = ''{}'',
       ses_created_on = 100,
       ses_ended_on = (if st = ''W'' then None else Some 150),
       ses_wait_started_on = (if st = ''W'' then Some 110 else None),
       ses_wait_expires_on = (if st = ''W'' then Some 900 else None),
       ses_wait_resume_on_expire = False,
       ses_timeout_on = None, ses_org_id = 1 \<rparr>"

definition ex_flowrun :: "string \<Rightarrow> SessionID \<Rightarrow> ContactID \<Rightarrow> flowrun_row" where
  "ex_flowrun st sid contact =
     \<lparr> run_uuid = ''r'', run_status = st, run_is_active = (st = ''W''),
       run_exit_type = (if st = ''W'' then None else Some st),
       run_created_on = 100, run_modified_on = 110,
       run_exited_on = (if st = ''W'' then None else Some 150),
       run_expires_on = (if st = ''W'' then Some 900 else None),
       run_responded = False, run_results = ''{}'', run_path = ''[]'',
       run_current_node_uuid = None, run_contact_id = contact, run_flow_id = 7,
       run_org_id = 1, run_parent_uuid = None, run_session_id = sid,
       run_start_id = None, run_connection_id = Some 21 \<rparr>"

definition ex_db :: DB where
  "ex_db =
     \<lparr> flows_flowrun = [11 \<mapsto> ex_flowrun ''C'' 1 41, 12 \<mapsto> ex_flowrun ''W'' 2 41],
       flows_flowsession = [1 \<mapsto> ex_session ''C'' 41, 2 \<mapsto> ex_session ''W'' 41],
       channels_channelconnection = [21 \<mapsto> 31] \<rparr>"

text \<open>
  A waiting session that has responded, an engine session that waits again, and a sprint
  without an inbound message.
\<close>

definition ex_responded :: Session where
  "ex_responded = \<lparr> sn_id = 2, sn_row = (ex_session ''W'' 41) \<lparr> ses_responded := True \<rparr> \<rparr>"

definition ex_engine_session :: flows_Session where
  "ex_engine_session =
     \<lparr> fse_Status = flows_SessionStatusWaiting, fse_CurrentFlowID = Some 7,
       fse_WaitStartedOn = Some 500, fse_WaitExpiresOn = Some 1500, fse_Timeout = None,
       fse_WaitResumeOnExpire = False, fse_Output = ''{}'' \<rparr>"

definition ex_sprint :: flows_Sprint where
  "ex_sprint = \<lparr> sp_Events = [\<lparr> ev_Type = ''msg_created'', ev_CreatedOn = 500 \<rparr>] \<rparr>"

definition no_hook :: PreCommitHook where
  "no_hook sessions = None"

section \<open>Facts about the vocabulary and the run record\<close>

lemmas RunStatus_defs =
  RunStatusActive_def RunStatusWaiting_def RunStatusCompleted_def
  RunStatusExpired_def RunStatusInterrupted_def RunStatusFailed_def

lemmas ExitType_defs =
  ExitInterrupted_def ExitCompleted_def ExitExpired_def ExitFailed_def

lemmas SessionStatus_defs =
  SessionStatusWaiting_def SessionStatusCompleted_def SessionStatusExpired_def
  SessionStatusInterrupted_def SessionStatusFailed_def

lemma go_index_runStatusMap:
  "go_index runStatusMap st =
     (case st of
        flows_RunStatusActive \<Rightarrow> ''A''
      | flows_RunStatusWaiting \<Rightarrow> ''W''
      | flows_RunStatusCompleted \<Rightarrow> ''C''
      | flows_RunStatusExpired \<Rightarrow> ''X''
      | flows_RunStatusFailed \<Rightarrow> ''F''
      | flows_RunStatusOther v \<Rightarrow> [])"
  by (cases st) (simp_all add: go_index_def runStatusMap_def RunStatus_defs)

lemma go_index_runStatusToExitType:
  "go_index runStatusToExitType st = spec_exit_type st"
  by (simp add: go_index_def runStatusToExitType_def spec_exit_type_def
        RunStatus_defs ExitType_defs)

lemma build_path_map: "build_path ps = map copy_step ps"
  by (induction ps) simp_all

lemma mark_responded_iff:
  "mark_responded es b = (b \<or> events_TypeMsgReceived \<in> set (map ev_Type es))"
  by (induction es arbitrary: b) auto

text \<open>The fields of the record that a successful newRun returns.\<close>

lemma newRun_Inr_fields:
  assumes "newRun env fr = Inr run"
  shows "r_Status run = go_index runStatusMap (fr_Status fr)"
    and "r_IsActive run =
           (fr_Status fr = flows_RunStatusActive \<or> fr_Status fr = flows_RunStatusWaiting)"
    and "r_ExitType run =
           (if fr_Status fr \<noteq> flows_RunStatusActive \<and> fr_Status fr \<noteq> flows_RunStatusWaiting
            then go_index runStatusToExitType (go_index runStatusMap (fr_Status fr)) else [])"
    and "r_Responded run = mark_responded (fr_Events fr) False"
    and "r_ParentUUID run = fr_Parent fr"
    and "r_CurrentNodeUUID run =
           (if length (build_path (fr_Path fr)) > 0
            then step_NodeUUID (build_path (fr_Path fr) ! (length (build_path (fr_Path fr)) - 1))
            else [])"
    and "r_Path run = env_MarshalPath env (build_path (fr_Path fr))"
  using assms
  by (auto simp: newRun_def Let_def FlowRun_zero_def split: sum.splits option.splits if_splits)

lemma newRun_ex_Inr: "newRun ex_env (ex_run st) = Inr (projr (newRun ex_env (ex_run st)))"
  by (simp add: newRun_def ex_env_def Let_def)

text \<open>
  C4. For every run record that newRun builds from an engine run, \<open>is_active\<close> is true
  exactly when the persisted status is Active or Waiting, and \<open>exit_type\<close> is the exit
  type of the persisted status: I for Interrupted, C for Completed, E for Expired, F for
  Failed, and null (the empty \<open>null.String\<close>) for Active and Waiting.
\<close>

theorem newRun_is_active_exit_type:
  assumes "newRun env fr = Inr run"
  shows "r_IsActive run = (r_Status run = RunStatusActive \<or> r_Status run = RunStatusWaiting)
       \<and> r_ExitType run = spec_exit_type (r_Status run)"
  using newRun_Inr_fields(1,2,3)[OF assms]
  by (cases "fr_Status fr")
     (simp_all add: go_index_runStatusMap go_index_runStatusToExitType spec_exit_type_def
        RunStatus_defs)

text \<open>
  C4, at concrete inputs: a Completed engine run gives an inactive record with exit type
  C, a Waiting engine run an active record with a null exit type.
\<close>

theorem newRun_is_active_exit_type_witness:
  "newRun ex_env (ex_run flows_RunStatusCompleted)
     = Inr (projr (newRun ex_env (ex_run flows_RunStatusCompleted)))
   \<and> r_Status (projr (newRun ex_env (ex_run flows_RunStatusCompleted))) = ''C''
   \<and> \<not> r_IsActive (projr (newRun ex_env (ex_run flows_RunStatusCompleted)))
   \<and> r_ExitType (projr (newRun ex_env (ex_run flows_RunStatusCompleted))) = ''C''
   \<and> newRun ex_env (ex_run flows_RunStatusWaiting)
     = Inr (projr (newRun ex_env (ex_run flows_RunStatusWaiting)))
   \<and> r_Status (projr (newRun ex_env (ex_run flows_RunStatusWaiting))) = ''W''
   \<and> r_IsActive (projr (newRun ex_env (ex_run flows_RunStatusWaiting)))
   \<and> r_ExitType (projr (newRun ex_env (ex_run flows_RunStatusWaiting))) = []"
proof -
  note c = newRun_ex_Inr[of flows_RunStatusCompleted]
  note w = newRun_ex_Inr[of flows_RunStatusWaiting]
  have sc: "r_Status (projr (newRun ex_env (ex_run flows_RunStatusCompleted))) = ''C''"
    using newRun_Inr_fields(1)[OF c] by (simp add: go_index_runStatusMap ex_run_def)
  have sw: "r_Status (projr (newRun ex_env (ex_run flows_RunStatusWaiting))) = ''W''"
    using newRun_Inr_fields(1)[OF w] by (simp add: go_index_runStatusMap ex_run_def)
  from newRun_is_active_exit_type[OF c] newRun_is_active_exit_type[OF w] sc sw c w
  show ?thesis
    by (simp add: spec_exit_type_def RunStatus_defs ExitType_defs)
qed

text \<open>
  C5. The persisted status of a run record built by newRun is the translation of the
  engine status: Active to A, Waiting to W, Completed to C, Expired to X, Failed to F
  (a value of the engine's string type outside its five constants is not in the map and
  gives the empty status); for no engine status is it Interrupted.
\<close>

theorem newRun_status_translation:
  assumes "newRun env fr = Inr run"
  shows "r_Status run =
           (case fr_Status fr of
              flows_RunStatusActive \<Rightarrow> ''A''
            | flows_RunStatusWaiting \<Rightarrow> ''W''
            | flows_RunStatusCompleted \<Rightarrow> ''C''
            | flows_RunStatusExpired \<Rightarrow> ''X''
            | flows_RunStatusFailed \<Rightarrow> ''F''
            | flows_RunStatusOther v \<Rightarrow> [])
       \<and> r_Status run \<noteq> RunStatusInterrupted"
  using newRun_Inr_fields(1)[OF assms]
  by (cases "fr_Status fr") (simp_all add: go_index_runStatusMap RunStatusInterrupted_def)

text \<open>C5, at a concrete input: an Expired engine run is persisted with status X.\<close>

theorem newRun_status_translation_witness:
  "newRun ex_env (ex_run flows_RunStatusExpired)
     = Inr (projr (newRun ex_env (ex_run flows_RunStatusExpired)))
   \<and> r_Status (projr (newRun ex_env (ex_run flows_RunStatusExpired))) = ''X''
   \<and> r_Status (projr (newRun ex_env (ex_run flows_RunStatusExpired))) \<noteq> ''I''"
proof -
  note h = newRun_ex_Inr[of flows_RunStatusExpired]
  from newRun_status_translation[OF h] h show ?thesis
    by (simp add: ex_run_def RunStatusInterrupted_def)
qed

text \<open>
  C6. A run record built by newRun has \<open>responded\<close> true exactly when the events of the
  engine run contain an event of the inbound-message type, and has a parent UUID exactly
  when the engine run has a parent frame, whose UUID it then is.
\<close>

theorem newRun_responded_parent:
  assumes "newRun env fr = Inr run"
  shows "r_Responded run = (events_TypeMsgReceived \<in> set (map ev_Type (fr_Events fr)))
       \<and> (r_ParentUUID run = None) = (fr_Parent fr = None)
       \<and> r_ParentUUID run = fr_Parent fr"
  using newRun_Inr_fields(4,5)[OF assms] by (simp add: mark_responded_iff)

text \<open>
  C6, at a concrete input: the example run has an inbound message and the parent
  \<open>r0\<close>.
\<close>

theorem newRun_responded_parent_witness:
  "newRun ex_env (ex_run flows_RunStatusActive)
     = Inr (projr (newRun ex_env (ex_run flows_RunStatusActive)))
   \<and> r_Responded (projr (newRun ex_env (ex_run flows_RunStatusActive)))
   \<and> r_ParentUUID (projr (newRun ex_env (ex_run flows_RunStatusActive))) = Some ''r0''"
proof -
  note h = newRun_ex_Inr[of flows_RunStatusActive]
  from newRun_responded_parent[OF h] h show ?thesis
    by (simp add: ex_run_def events_TypeMsgReceived_def)
qed

text \<open>
  C7. For every run record built by newRun from an engine run with a non-empty path,
  the current node UUID is the node UUID of the last step of the copied path, and the
  stored path is the serialisation of that copied path.
\<close>

theorem newRun_current_node:
  assumes "newRun env fr = Inr run" and "fr_Path fr \<noteq> []"
  shows "r_CurrentNodeUUID run = step_NodeUUID (last (build_path (fr_Path fr)))
       \<and> r_Path run = env_MarshalPath env (build_path (fr_Path fr))"
proof -
  from assms(2) have ne: "build_path (fr_Path fr) \<noteq> []" by (simp add: build_path_map)
  then have "build_path (fr_Path fr) ! (length (build_path (fr_Path fr)) - 1)
               = last (build_path (fr_Path fr))"
    by (simp add: last_conv_nth)
  with ne newRun_Inr_fields(6,7)[OF assms(1)] show ?thesis by simp
qed

text \<open>C7, at a concrete input: the path of the example run ends at node \<open>n2\<close>.\<close>

theorem newRun_current_node_witness:
  "newRun ex_env (ex_run flows_RunStatusFailed)
     = Inr (projr (newRun ex_env (ex_run flows_RunStatusFailed)))
   \<and> fr_Path (ex_run flows_RunStatusFailed) \<noteq> []
   \<and> r_CurrentNodeUUID (projr (newRun ex_env (ex_run flows_RunStatusFailed))) = ''n2''
   \<and> r_Path (projr (newRun ex_env (ex_run flows_RunStatusFailed))) = ''n1n2''"
proof -
  note h = newRun_ex_Inr[of flows_RunStatusFailed]
  have p: "fr_Path (ex_run flows_RunStatusFailed) \<noteq> []" by (simp add: ex_run_def)
  from newRun_current_node[OF h p] h p show ?thesis
    by (simp add: ex_run_def ex_env_def copy_step_def)
qed

section \<open>Facts about expiration\<close>

lemma ExpireRunsAndSessions_reliable:
  "runIDs \<noteq> [] \<Longrightarrow>
   ExpireRunsAndSessions reliable db now runIDs sessionIDs =
     (None, if length sessionIDs > 0
            then expireSessionsSQL now sessionIDs (expireRunsSQL now runIDs db)
            else expireRunsSQL now runIDs db)"
  by (simp add: ExpireRunsAndSessions_def BeginTxx_def Exec_def Commit_def reliable_def)

lemma ExpireRunsAndSessions_no_runs:
  "ExpireRunsAndSessions d db now [] sessionIDs = (None, db)"
  by (simp add: ExpireRunsAndSessions_def)

text \<open>
  C1. Every run id passed to ExpireRunsAndSessions should have its row set to the
  Expired status of the run vocabulary, \<open>RunStatusExpired\<close>, which is X. The statement
  \<open>expireRunsSQL\<close> writes E into \<open>status\<close> instead: expiring the waiting run 12 of the
  example database returns no error and leaves the run with status E, a character
  outside the run status vocabulary, next to the exit type E, \<open>exited_on\<close> at the time of
  the call and \<open>is_active\<close> false.
\<close>

theorem ExpireRunsAndSessions_run_status_written:
  "fst (ExpireRunsAndSessions reliable ex_db 500 [12] [2]) = None
   \<and> map_option run_status
        (flows_flowrun (snd (ExpireRunsAndSessions reliable ex_db 500 [12] [2])) 12) = Some ''E''
   \<and> ''E'' \<noteq> RunStatusExpired
   \<and> ''E'' \<notin> {RunStatusActive, RunStatusWaiting, RunStatusCompleted, RunStatusExpired,
               RunStatusInterrupted, RunStatusFailed}
   \<and> map_option run_exit_type
        (flows_flowrun (snd (ExpireRunsAndSessions reliable ex_db 500 [12] [2])) 12)
       = Some (Some ''E'')
   \<and> map_option run_exited_on
        (flows_flowrun (snd (ExpireRunsAndSessions reliable ex_db 500 [12] [2])) 12)
       = Some (Some 500)
   \<and> map_option run_is_active
        (flows_flowrun (snd (ExpireRunsAndSessions reliable ex_db 500 [12] [2])) 12)
       = Some False"
  by (simp add: ExpireRunsAndSessions_reliable expireSessionsSQL_def expireRunsSQL_def
        update_where_id_def ex_db_def RunStatus_defs)

text \<open>
  C2, as stated, fails: with an empty list of run ids and the session id 2, the call
  returns no error at its first check and the waiting session 2 keeps its row, with
  status W and its wait expiry.
\<close>

theorem ExpireRunsAndSessions_empty_runs_counterexample:
  "fst (ExpireRunsAndSessions reliable ex_db 500 [] [2]) = None
   \<and> flows_flowsession (snd (ExpireRunsAndSessions reliable ex_db 500 [] [2])) 2
       = Some (ex_session ''W'' 41)
   \<and> ses_status (ex_session ''W'' 41) = SessionStatusWaiting
   \<and> ses_status (ex_session ''W'' 41) \<noteq> SessionStatusExpired
   \<and> ses_wait_expires_on (ex_session ''W'' 41) = Some 900"
  by (simp add: ExpireRunsAndSessions_no_runs ex_db_def ex_session_def SessionStatus_defs)

text \<open>
  C2, amended. For every call to ExpireRunsAndSessions with a non-empty list of run ids
  (on a database that executes the statements), the call returns no error and every
  session id of the passed list that has a row has that row set to status Expired with
  \<open>ended_on\<close> at the time of the call and \<open>wait_started_on\<close>, \<open>wait_expires_on\<close>,
  \<open>timeout_on\<close> and \<open>current_flow_id\<close> null, its other columns as they were. With an
  empty list of run ids the call returns no error and changes nothing.
\<close>

theorem ExpireRunsAndSessions_expires_sessions:
  assumes "runIDs \<noteq> []" and "sid \<in> set sessionIDs" and "flows_flowsession db sid = Some s"
  shows "fst (ExpireRunsAndSessions reliable db now runIDs sessionIDs) = None
       \<and> flows_flowsession (snd (ExpireRunsAndSessions reliable db now runIDs sessionIDs)) sid =
           Some (s \<lparr> ses_status := SessionStatusExpired,
                     ses_ended_on := Some now,
                     ses_wait_started_on := None,
                     ses_wait_expires_on := None,
                     ses_timeout_on := None,
                     ses_current_flow_id := None \<rparr>)
       \<and> ExpireRunsAndSessions d db now [] sessionIDs = (None, db)"
proof -
  from assms(2) have "length sessionIDs > 0" by (cases sessionIDs) auto
  with assms show ?thesis
    by (simp add: ExpireRunsAndSessions_reliable ExpireRunsAndSessions_no_runs
          expireSessionsSQL_def expireRunsSQL_def update_where_id_def SessionStatusExpired_def)
qed

text \<open>
  C2, amended, at a concrete input: expiring run 12 and session 2 of the example
  database sets session 2 to X, ended at the time of the call, with no wait expiry and no
  current flow.
\<close>

theorem ExpireRunsAndSessions_expires_sessions_witness:
  "[12] \<noteq> ([]::FlowRunID list) \<and> (2::SessionID) \<in> set [2]
   \<and> flows_flowsession ex_db 2 = Some (ex_session ''W'' 41)
   \<and> map_option ses_status
        (flows_flowsession (snd (ExpireRunsAndSessions reliable ex_db 500 [12] [2])) 2) = Some ''X''
   \<and> map_option ses_ended_on
        (flows_flowsession (snd (ExpireRunsAndSessions reliable ex_db 500 [12] [2])) 2)
       = Some (Some 500)
   \<and> map_option ses_wait_expires_on
        (flows_flowsession (snd (ExpireRunsAndSessions reliable ex_db 500 [12] [2])) 2) = Some None
   \<and> map_option ses_current_flow_id
        (flows_flowsession (snd (ExpireRunsAndSessions reliable ex_db 500 [12] [2])) 2) = Some None"
proof -
  have h1: "[12] \<noteq> ([]::FlowRunID list)" by simp
  have h2: "(2::SessionID) \<in> set [2]" by simp
  have h3: "flows_flowsession ex_db 2 = Some (ex_session ''W'' 41)" by (simp add: ex_db_def)
  from ExpireRunsAndSessions_expires_sessions[OF h1 h2 h3, of 500] h3 show ?thesis
    by (simp add: SessionStatusExpired_def)
qed

text \<open>
  C10. RunExpiration returns a nil expiration and a nil error when no run with the given
  id has status Waiting (on a database that executes the query), and whenever it returns
  a non-nil expiration, the run with that id has status W and that expiration.
\<close>

theorem RunExpiration_waiting_only:
  "(\<not> waiting_run db runID \<longrightarrow> RunExpiration reliable db runID = Inr None)
   \<and> (RunExpiration d db runID = Inr (Some t) \<longrightarrow>
        waiting_run db runID
        \<and> map_option run_status (flows_flowrun db runID) = Some ''W''
        \<and> map_option run_expires_on (flows_flowrun db runID) = Some (Some t))"
  by (auto simp: RunExpiration_def Get_expires_on_def waiting_run_def reliable_def
        RunStatusWaiting_def split: option.splits sum.splits if_splits)

text \<open>
  C10, at concrete inputs: run 11 of the example database is Completed and gives
  (nil, nil); run 12 is Waiting and gives its expiration 900.
\<close>

theorem RunExpiration_waiting_only_witness:
  "\<not> waiting_run ex_db 11 \<and> RunExpiration reliable ex_db 11 = Inr None
   \<and> RunExpiration reliable ex_db 12 = Inr (Some 900) \<and> waiting_run ex_db 12"
proof -
  have h1: "\<not> waiting_run ex_db 11"
    by (simp add: waiting_run_def ex_db_def ex_flowrun_def RunStatusWaiting_def)
  have h2: "RunExpiration reliable ex_db 12 = Inr (Some 900)"
    by (simp add: RunExpiration_def Get_expires_on_def reliable_def ex_db_def ex_flowrun_def)
  from RunExpiration_waiting_only[of ex_db 11 reliable 900] h1
  have a: "RunExpiration reliable ex_db 11 = Inr None" by blast
  from RunExpiration_waiting_only[of ex_db 12 reliable 900] h2
  have b: "waiting_run ex_db 12" by blast
  from h1 a h2 b show ?thesis by blast
qed

section \<open>Facts about interruption\<close>

lemma interruptSessions_session_kept:
  assumes "flows_flowsession db sid = Some s" and "ses_status s \<noteq> SessionStatusWaiting"
  shows "flows_flowsession (snd (interruptSessions d db now sel)) sid = Some s"
  using assms
  by (simp add: interruptSessions_def Exec_def interruptSessionsSQL_def interruptRunsSQL_def
        matched_session_def Let_def split: option.splits)

lemma interruptSessions_run_kept:
  assumes "flows_flowsession db sid = Some s" and "ses_status s \<noteq> SessionStatusWaiting"
      and "flows_flowrun db rid = Some r" and "run_session_id r = sid"
  shows "flows_flowrun (snd (interruptSessions d db now sel)) rid = Some r"
  using assms
  by (simp add: interruptSessions_def Exec_def interruptSessionsSQL_def interruptRunsSQL_def
        matched_session_def Let_def split: option.splits)

lemma interrupt_guarded_kept:
  assumes res: "res = (if c then (None, db) else interruptSessions d db now sel)"
      and row: "flows_flowsession db sid = Some s"
      and st: "ses_status s \<noteq> SessionStatusWaiting"
  shows "flows_flowsession (snd res) sid = Some s
       \<and> (\<forall>rid r. flows_flowrun db rid = Some r \<and> run_session_id r = sid
                  \<longrightarrow> flows_flowrun (snd res) rid = Some r)"
proof (cases c)
  case True
  with res row show ?thesis by simp
next
  case False
  with res row st show ?thesis
    by (simp add: interruptSessions_session_kept interruptSessions_run_kept)
qed

text \<open>
  C3. For each of the four interruption operations (by contacts, by contacts and flow
  type, by channels, by flows) and whatever the selector matches: a session whose status
  is not Waiting, a Completed one in particular, keeps its whole row, and every run of
  that session keeps its whole row, so also its status. Only sessions of status Waiting
  are moved to Interrupted.
\<close>

theorem interrupt_keeps_non_waiting:
  assumes op: "res = InterruptSessionsForContacts d db now contactIDs
         \<or> res = InterruptSessionsOfTypeForContacts d db now contactIDs sessionType
         \<or> res = InterruptSessionsForChannels d db now channelIDs
         \<or> res = InterruptSessionsForFlows d db now flowIDs"
      and row: "flows_flowsession db sid = Some s"
      and st: "ses_status s \<noteq> SessionStatusWaiting"
  shows "flows_flowsession (snd res) sid = Some s
       \<and> (\<forall>rid r. flows_flowrun db rid = Some r \<and> run_session_id r = sid
                  \<longrightarrow> flows_flowrun (snd res) rid = Some r)"
  using op
proof (elim disjE)
  assume "res = InterruptSessionsForContacts d db now contactIDs"
  then show ?thesis
    unfolding InterruptSessionsForContacts_def by (rule interrupt_guarded_kept[OF _ row st])
next
  assume "res = InterruptSessionsOfTypeForContacts d db now contactIDs sessionType"
  then show ?thesis
    unfolding InterruptSessionsOfTypeForContacts_def
    by (rule interrupt_guarded_kept[OF _ row st])
next
  assume "res = InterruptSessionsForChannels d db now channelIDs"
  then show ?thesis
    unfolding InterruptSessionsForChannels_def by (rule interrupt_guarded_kept[OF _ row st])
next
  assume "res = InterruptSessionsForFlows d db now flowIDs"
  then show ?thesis
    unfolding InterruptSessionsForFlows_def by (rule interrupt_guarded_kept[OF _ row st])
qed

text \<open>
  C3, at a concrete input, as in the test of the interruption by contacts: interrupting
  contact 41 leaves the Completed session 1 and its run 11 as they were, while the
  Waiting session 2 of the same contact becomes Interrupted.
\<close>

theorem interrupt_keeps_non_waiting_witness:
  "flows_flowsession ex_db 1 = Some (ex_session ''C'' 41)
   \<and> ses_status (ex_session ''C'' 41) \<noteq> SessionStatusWaiting
   \<and> flows_flowrun ex_db 11 = Some (ex_flowrun ''C'' 1 41)
   \<and> run_session_id (ex_flowrun ''C'' 1 41) = 1
   \<and> flows_flowsession (snd (InterruptSessionsForContacts reliable ex_db 500 [41])) 1
       = Some (ex_session ''C'' 41)
   \<and> flows_flowrun (snd (InterruptSessionsForContacts reliable ex_db 500 [41])) 11
       = Some (ex_flowrun ''C'' 1 41)
   \<and> map_option ses_status
        (flows_flowsession (snd (InterruptSessionsForContacts reliable ex_db 500 [41])) 2)
       = Some ''I''"
proof -
  have row: "flows_flowsession ex_db 1 = Some (ex_session ''C'' 41)" by (simp add: ex_db_def)
  have st: "ses_status (ex_session ''C'' 41) \<noteq> SessionStatusWaiting"
    by (simp add: ex_session_def SessionStatusWaiting_def)
  have run: "flows_flowrun ex_db 11 = Some (ex_flowrun ''C'' 1 41)" by (simp add: ex_db_def)
  have sid: "run_session_id (ex_flowrun ''C'' 1 41) = 1" by (simp add: ex_flowrun_def)
  have other: "map_option ses_status
      (flows_flowsession (snd (InterruptSessionsForContacts reliable ex_db 500 [41])) 2)
        = Some ''I''"
    by (simp add: InterruptSessionsForContacts_def interruptSessions_def Exec_def reliable_def
          interruptSessionsSQL_def interruptRunsSQL_def matched_session_def Let_def ex_db_def
          ex_session_def SessionStatus_defs)
  from interrupt_keeps_non_waiting
         [of "InterruptSessionsForContacts reliable ex_db 500 [41]" reliable ex_db 500 "[41]",
          OF _ row st]
  have "flows_flowsession (snd (InterruptSessionsForContacts reliable ex_db 500 [41])) 1
          = Some (ex_session ''C'' 41)
      \<and> (\<forall>rid r. flows_flowrun ex_db rid = Some r \<and> run_session_id r = 1
            \<longrightarrow> flows_flowrun (snd (InterruptSessionsForContacts reliable ex_db 500 [41])) rid
                  = Some r)"
    by simp
  with row st run sid other show ?thesis by blast
qed

text \<open>
  C9. With an empty input the expiration and each of the four interruption operations
  return no error and leave the database, every session row and every run row, as it
  was; for the expiration the empty input is the list of run ids.
\<close>

theorem empty_input_noop:
  "ExpireRunsAndSessions d db now [] sessionIDs = (None, db)
   \<and> InterruptSessionsForContacts d db now [] = (None, db)
   \<and> InterruptSessionsOfTypeForContacts d db now [] sessionType = (None, db)
   \<and> InterruptSessionsForChannels d db now [] = (None, db)
   \<and> InterruptSessionsForFlows d db now [] = (None, db)"
  by (simp add: ExpireRunsAndSessions_def InterruptSessionsForContacts_def
        InterruptSessionsOfTypeForContacts_def InterruptSessionsForChannels_def
        InterruptSessionsForFlows_def)

section \<open>Facts about the update path\<close>

lemma apply_events_responded:
  "ses_responded row \<Longrightarrow> ses_responded (apply_events es row)"
  by (induction es arbitrary: row) (simp_all add: apply_event_def)

lemma recompute_responded: "ses_responded (recompute now fs row) = ses_responded row"
  by (simp add: recompute_def)

lemma Update_keeps_responded:
  assumes "Session_Update hook now s fs sprint = Inr s'" and "ses_responded (sn_row s)"
  shows "ses_responded (sn_row s')"
  using assms
  by (auto simp: Session_Update_def Let_def apply_events_responded recompute_responded
        split: if_splits option.splits)

text \<open>
  C8. The responded flag of a session is sticky across updates: a session that has
  responded has responded after any sequence of sprints applied through
  \<open>Session.Update\<close>, and after every single update that succeeds.
\<close>

theorem Session_Update_responded_sticky:
  assumes "ses_responded (sn_row s)"
  shows "ses_responded (sn_row (apply_sprints hook s sprints))
       \<and> (\<forall>now fs sprint s'. Session_Update hook now s fs sprint = Inr s'
            \<longrightarrow> ses_responded (sn_row s'))"
proof -
  have "ses_responded (sn_row (apply_sprints hook s sprints))"
    using assms
  proof (induction sprints arbitrary: s)
    case Nil
    then show ?case by simp
  next
    case (Cons x rest)
    obtain now fs sprint where x: "x = (now, fs, sprint)" by (cases x) auto
    show ?case
    proof (cases "Session_Update hook now s fs sprint")
      case (Inl err)
      with x Cons show ?thesis by simp
    next
      case (Inr s')
      from Inr Cons.prems have "ses_responded (sn_row s')" by (rule Update_keeps_responded)
      with x Inr Cons.IH show ?thesis by simp
    qed
  qed
  with assms show ?thesis by (blast intro: Update_keeps_responded)
qed

text \<open>
  C8, at a concrete input: a waiting session that has responded is updated with a sprint
  that carries no inbound message; the update succeeds, the session waits again and
  still has responded.
\<close>

theorem Session_Update_responded_sticky_witness:
  "ses_responded (sn_row ex_responded)
   \<and> Session_Update no_hook 500 ex_responded ex_engine_session ex_sprint
       = Inr (projr (Session_Update no_hook 500 ex_responded ex_engine_session ex_sprint))
   \<and> ses_responded
       (sn_row (projr (Session_Update no_hook 500 ex_responded ex_engine_session ex_sprint)))
   \<and> ses_responded
       (sn_row (apply_sprints no_hook ex_responded [(500, ex_engine_session, ex_sprint)]))"
proof -
  have h: "ses_responded (sn_row ex_responded)" by (simp add: ex_responded_def)
  have u: "Session_Update no_hook 500 ex_responded ex_engine_session ex_sprint
       = Inr (projr (Session_Update no_hook 500 ex_responded ex_engine_session ex_sprint))"
    by (simp add: Session_Update_def session_terminal_def ex_responded_def ex_session_def
          SessionStatus_defs no_hook_def Let_def)
  from Session_Update_responded_sticky
         [OF h, of no_hook "[(500, ex_engine_session, ex_sprint)]"] h u
  show ?thesis by blast
qed

end
